theory Spec2Isabelle
  imports Main
begin

section \<open>Python values and library behaviour used by the ingestion function\<close>

text \<open>
  Text is modelled as \<^typ>\<open>string\<close>, one \<^typ>\<open>char\<close> per code point below 256.
  \<open>py_isspace\<close> is Python's \<^verbatim>\<open>str.isspace\<close> on that range (tab to carriage return, the
  four separators 28..31, space, NEL and NBSP); \<open>strip\<close> is \<^verbatim>\<open>str.strip()\<close>.
\<close>

definition py_isspace :: "char \<Rightarrow> bool" where
  "py_isspace c =
     (let n = (of_char c :: nat)
      in (9 \<le> n \<and> n \<le> 13) \<or> (28 \<le> n \<and> n \<le> 32) \<or> n = 133 \<or> n = 160)"

definition strip :: "string \<Rightarrow> string" where
  "strip s = rev (dropWhile py_isspace (rev (dropWhile py_isspace s)))"

text \<open>
  The exceptions that can leave a function of the repository. \<open>AttributeError\<close> is
  what a missing method raises (\<^verbatim>\<open>None.strip()\<close>, \<^verbatim>\<open>[1].replace\<close>), \<open>KeyError k\<close> what
  \<^verbatim>\<open>row[k]\<close> raises on a missing key, \<open>DatabaseError\<close> stands for any
  \<^verbatim>\<open>psycopg2.Error\<close>, and \<open>BadRequest\<close> is what Flask's \<^verbatim>\<open>get_json\<close> raises on a body
  that is not JSON. All are subclasses of \<^verbatim>\<open>Exception\<close>.
\<close>

datatype py_exception = AttributeError | KeyError string | DatabaseError | BadRequest

text \<open>
  A row produced by \<^verbatim>\<open>csv.DictReader\<close> is an insertion-ordered \<^verbatim>\<open>dict\<close>. Its keys are
  the header's field names, or \<^verbatim>\<open>None\<close> (the default \<^verbatim>\<open>restkey\<close>); its values are
  strings, \<^verbatim>\<open>None\<close> (the default \<^verbatim>\<open>restval\<close>), or the list of surplus fields stored
  under \<^verbatim>\<open>restkey\<close>.
\<close>

datatype pkey = KStr string | KNone

datatype pval = VStr string | VNone | VList "string list"

type_synonym raw_record = "(pkey \<times> pval) list"

text \<open>\<^verbatim>\<open>d[k] = v\<close>: an existing key keeps its position, a new key goes last.\<close>

fun dict_set :: "raw_record \<Rightarrow> pkey \<Rightarrow> pval \<Rightarrow> raw_record" where
  "dict_set [] k v = [(k, v)]"
| "dict_set ((k', v') # d) k v =
     (if k' = k then (k, v) # d else (k', v') # dict_set d k v)"

text \<open>\<^verbatim>\<open>dict(pairs)\<close>: the pairs are stored from left to right.\<close>

definition dict_of :: "(pkey \<times> pval) list \<Rightarrow> raw_record" where
  "dict_of ps = foldl (\<lambda>d (k, v). dict_set d k v) [] ps"

text \<open>
  One step of \<^verbatim>\<open>csv.DictReader.__next__\<close> (CPython's \<^verbatim>\<open>Lib/csv.py\<close>), for a
  non-blank tokenised line \<open>row\<close>:
  \<^verbatim>\<open>
  d = dict(zip(self.fieldnames, row))
  lf = len(self.fieldnames); lr = len(row)
  if lf < lr:   d[self.restkey] = row[lf:]
  elif lf > lr:
      for key in self.fieldnames[lr:]: d[key] = self.restval
  \<close>
\<close>

definition dict_reader_row :: "string list \<Rightarrow> string list \<Rightarrow> raw_record" where
  "dict_reader_row fieldnames row =
     (let d = dict_of (zip (map KStr fieldnames) (map VStr row));
          lf = length fieldnames;
          lr = length row
      in if lf < lr then dict_set d KNone (VList (drop lf row))
         else if lf > lr
         then foldl (\<lambda>d key. dict_set d (KStr key) VNone) d (drop lr fieldnames)
         else d)"

text \<open>
  \<^verbatim>\<open>list(csv.DictReader(lines))\<close> on the tokenised lines (what \<^verbatim>\<open>csv.reader\<close> yields:
  one list of fields per line, \<open>[]\<close> for a blank line). The first line is the header;
  blank lines after it are passed over.
\<close>

definition dict_reader :: "string list list \<Rightarrow> raw_record list" where
  "dict_reader lines =
     (case lines of
        [] \<Rightarrow> []
      | fieldnames # rest \<Rightarrow>
          map (dict_reader_row fieldnames) (filter (\<lambda>row. row \<noteq> []) rest))"

section \<open>Row normalisation (\<^verbatim>\<open>src/main.py\<close>, lines 62 to 65)\<close>

text \<open>Line 62: \<^verbatim>\<open>columns = [c.strip() for c in row.keys()]\<close>.\<close>

fun strip_keys :: "pkey list \<Rightarrow> py_exception + string list" where
  "strip_keys [] = Inr []"
| "strip_keys (KNone # ks) = Inl AttributeError"
| "strip_keys (KStr c # ks) =
     (case strip_keys ks of Inl e \<Rightarrow> Inl e | Inr cs \<Rightarrow> Inr (strip c # cs))"

text \<open>
  Line 63:
  \<^verbatim>\<open>values = [row[col].strip() if isinstance(row[col], str) else row[col] for col in columns]\<close>.
  The row is indexed with the stripped name.
\<close>

fun strip_values :: "raw_record \<Rightarrow> string list \<Rightarrow> py_exception + pval list" where
  "strip_values row [] = Inr []"
| "strip_values row (col # cols) =
     (case map_of row (KStr col) of
        None \<Rightarrow> Inl (KeyError col)
      | Some v \<Rightarrow>
          (case strip_values row cols of
             Inl e \<Rightarrow> Inl e
           | Inr vs \<Rightarrow> Inr ((case v of VStr s \<Rightarrow> VStr (strip s) | _ \<Rightarrow> v) # vs)))"

definition normalize :: "raw_record \<Rightarrow> py_exception + (string list \<times> pval list)" where
  "normalize row =
     (case strip_keys (map fst row) of
        Inl e \<Rightarrow> Inl e
      | Inr columns \<Rightarrow>
          (case strip_values row columns of
             Inl e \<Rightarrow> Inl e
           | Inr values \<Rightarrow> Inr (columns, values)))"

text \<open>Line 65: \<^verbatim>\<open>all(v == "" or v is None for v in values)\<close>.\<close>

fun is_blank :: "pval \<Rightarrow> bool" where
  "is_blank (VStr s) = (s = [])"
| "is_blank VNone = True"
| "is_blank (VList xs) = False"

definition all_blank :: "pval list \<Rightarrow> bool" where
  "all_blank values = list_all is_blank values"

section \<open>Statement construction (lines 69 to 74)\<close>

text \<open>
  The composed \<^verbatim>\<open>psycopg2.sql\<close> object: the schema identifier, one identifier per column
  and one placeholder per column. Nothing in these lines raises for string columns, also
  when there are none.
\<close>

record insert_stmt =
  stmt_schema :: string
  stmt_fields :: "string list"
  stmt_placeholders :: nat

definition build_insert :: "string \<Rightarrow> string list \<Rightarrow> insert_stmt" where
  "build_insert sch columns =
     \<lparr>stmt_schema = sch, stmt_fields = columns, stmt_placeholders = length columns\<rparr>"

section \<open>The database and the log as explicit effects\<close>

datatype sql_command =
    Savepoint
  | Insert insert_stmt "pval list"
  | Release_savepoint
  | Rollback_to_savepoint

text \<open>
  Connections are numbered in the order \<^verbatim>\<open>psycopg2.connect\<close> returns them; a cursor is
  named by the connection it was opened on.
\<close>

datatype db_call =
    Connect
  | Cursor nat
  | Execute nat sql_command
  | Conn_rollback nat
  | Conn_close nat
  | Conn_commit nat
  | Cur_close nat

datatype log_event =
    Blob_does_not_exist
  | Parsed_csv nat
  | Connected
  | Db_connection_failed
  | Skipping_empty_row nat
  | Insert_failed nat insert_stmt
  | Values_logged "pval list"
  | Row_error nat
  | Reconnection_failed
  | Committed nat
  | Commit_failed
  | Done_processing nat

datatype event = Call db_call bool | Sleep nat | Log log_event

text \<open>
  The database is an oracle: given everything that has happened so far and the call being
  made, it answers whether the call returns (\<open>True\<close>) or raises a \<^verbatim>\<open>psycopg2\<close> error
  (\<open>False\<close>).
\<close>

type_synonym db = "event list \<Rightarrow> db_call \<Rightarrow> bool"

text \<open>The local variables of \<^verbatim>\<open>main\<close> that change, and the trace of its effects.\<close>

record loader_state =
  conn :: nat
  cur :: nat
  rows_inserted :: nat
  trace :: "event list"

definition emit :: "event \<Rightarrow> loader_state \<Rightarrow> loader_state" where
  "emit e st = st\<lparr>trace := trace st @ [e]\<rparr>"

definition call :: "db \<Rightarrow> db_call \<Rightarrow> loader_state \<Rightarrow> bool \<times> loader_state" where
  "call w c st = (let r = w (trace st) c in (r, emit (Call c r) st))"

section \<open>The row loop (lines 60 to 103)\<close>

datatype flow = Next loader_state | Stop loader_state | Raised py_exception loader_state

text \<open>
  Lines 76 to 80, the body of the \<^verbatim>\<open>try\<close>: the three statements run in order and the
  first that raises ends the block. \<open>True\<close> means all three returned.
\<close>

definition try_insert ::
  "db \<Rightarrow> insert_stmt \<Rightarrow> pval list \<Rightarrow> loader_state \<Rightarrow> bool \<times> loader_state" where
  "try_insert w stmt values st =
     (case call w (Execute (cur st) Savepoint) st of
        (False, st1) \<Rightarrow> (False, st1)
      | (True, st1) \<Rightarrow>
          (case call w (Execute (cur st1) (Insert stmt values)) st1 of
             (False, st2) \<Rightarrow> (False, st2)
           | (True, st2) \<Rightarrow> call w (Execute (cur st2) Release_savepoint) st2))"

text \<open>
  Lines 92 to 103, the handler entered when \<^verbatim>\<open>ROLLBACK TO SAVEPOINT\<close> raised.
  \<^verbatim>\<open>conn.rollback()\<close> on line 92 is outside every \<^verbatim>\<open>try\<close>; \<^verbatim>\<open>conn.close()\<close> is guarded;
  \<^verbatim>\<open>psycopg2.connect\<close> and \<^verbatim>\<open>conn.cursor()\<close> share one \<^verbatim>\<open>try\<close>, and \<^verbatim>\<open>conn\<close> is already
  rebound when \<^verbatim>\<open>conn.cursor()\<close> runs.
\<close>

definition reconnect :: "db \<Rightarrow> loader_state \<Rightarrow> flow" where
  "reconnect w st =
     (case call w (Conn_rollback (conn st)) st of
        (False, st1) \<Rightarrow> Raised DatabaseError st1
      | (True, st1) \<Rightarrow>
          (let st2 = snd (call w (Conn_close (conn st1)) st1);
               st3 = emit (Sleep 1) st2
           in case call w Connect st3 of
                (False, st4) \<Rightarrow> Stop (emit (Log Reconnection_failed) st4)
              | (True, st4) \<Rightarrow>
                  (let st5 = st4\<lparr>conn := Suc (conn st4)\<rparr>
                   in case call w (Cursor (conn st5)) st5 of
                        (False, st6) \<Rightarrow> Stop (emit (Log Reconnection_failed) st6)
                      | (True, st6) \<Rightarrow> Next (st6\<lparr>cur := conn st6\<rparr>))))"

text \<open>
  Lines 81 to 103, the \<^verbatim>\<open>except\<close> branch: three log records (the statement text of
  lines 82 to 85 is only used in the first), then \<^verbatim>\<open>ROLLBACK TO SAVEPOINT\<close>.
\<close>

definition on_insert_error ::
  "db \<Rightarrow> nat \<Rightarrow> insert_stmt \<Rightarrow> pval list \<Rightarrow> loader_state \<Rightarrow> flow" where
  "on_insert_error w idx stmt values st =
     (let st1 = emit (Log (Row_error idx))
                  (emit (Log (Values_logged values))
                     (emit (Log (Insert_failed idx stmt)) st))
      in case call w (Execute (cur st1) Rollback_to_savepoint) st1 of
           (True, st2) \<Rightarrow> Next st2
         | (False, st2) \<Rightarrow> reconnect w st2)"

text \<open>One iteration of the \<^verbatim>\<open>for\<close> loop, lines 62 to 103.\<close>

definition process_row :: "string \<Rightarrow> db \<Rightarrow> nat \<Rightarrow> raw_record \<Rightarrow> loader_state \<Rightarrow> flow" where
  "process_row sch w idx row st =
     (case normalize row of
        Inl e \<Rightarrow> Raised e st
      | Inr (columns, values) \<Rightarrow>
          if all_blank values then Next (emit (Log (Skipping_empty_row idx)) st)
          else
            (let stmt = build_insert sch columns
             in case try_insert w stmt values st of
                  (True, st1) \<Rightarrow> Next (st1\<lparr>rows_inserted := rows_inserted st1 + 1\<rparr>)
                | (False, st1) \<Rightarrow> on_insert_error w idx stmt values st1))"

text \<open>
  \<^verbatim>\<open>for idx, row in enumerate(rows, start=1)\<close>: \<^verbatim>\<open>continue\<close> and falling off the body
  are \<open>Next\<close>, \<^verbatim>\<open>break\<close> is \<open>Stop\<close>, an exception leaving the body is \<open>Raised\<close>.
\<close>

fun run_rows :: "string \<Rightarrow> db \<Rightarrow> nat \<Rightarrow> raw_record list \<Rightarrow> loader_state \<Rightarrow> flow" where
  "run_rows sch w idx [] st = Next st"
| "run_rows sch w idx (row # rows) st =
     (case process_row sch w idx row st of
        Next st1 \<Rightarrow> run_rows sch w (Suc idx) rows st1
      | Stop st1 \<Rightarrow> Stop st1
      | Raised e st1 \<Rightarrow> Raised e st1)"

section \<open>Commit and release (lines 105 to 121)\<close>

text \<open>
  \<^verbatim>\<open>cur.close()\<close> and \<^verbatim>\<open>conn.close()\<close> sit in one \<^verbatim>\<open>try\<close> inside \<^verbatim>\<open>finally\<close>: when the
  first raises, the second is not run.
\<close>

definition finalize :: "db \<Rightarrow> loader_state \<Rightarrow> loader_state" where
  "finalize w st =
     (let st2 = (case call w (Conn_commit (conn st)) st of
                   (True, st1) \<Rightarrow> emit (Log (Committed (rows_inserted st1))) st1
                 | (False, st1) \<Rightarrow>
                     snd (call w (Conn_rollback (conn st1)) (emit (Log Commit_failed) st1)));
          st4 = (case call w (Cur_close (cur st2)) st2 of
                   (True, st3) \<Rightarrow> snd (call w (Conn_close (conn st3)) st3)
                 | (False, st3) \<Rightarrow> st3)
      in emit (Log (Done_processing (rows_inserted st4))) st4)"

section \<open>The entry point\<close>

datatype outcome = Returns_None | Raises py_exception

definition initial :: loader_state where
  "initial = \<lparr>conn = 0, cur = 0, rows_inserted = 0, trace = []\<rparr>"

text \<open>
  What follows the loop: after its last iteration or a \<^verbatim>\<open>break\<close>, control reaches
  line 105; an exception that left the loop body leaves \<^verbatim>\<open>main\<close>, since the loop is
  inside no \<^verbatim>\<open>try\<close>.
\<close>

definition after_loop :: "db \<Rightarrow> flow \<Rightarrow> outcome \<times> loader_state" where
  "after_loop w fl =
     (case fl of
        Next st \<Rightarrow> (Returns_None, finalize w st)
      | Stop st \<Rightarrow> (Returns_None, finalize w st)
      | Raised e st \<Rightarrow> (Raises e, st))"

text \<open>
  Lines 50 to 121: connect, run the loop, commit and release. Every path on which
  \<^verbatim>\<open>main\<close> returns, returns \<^verbatim>\<open>None\<close>.
\<close>

definition ingest :: "string \<Rightarrow> db \<Rightarrow> raw_record list \<Rightarrow> loader_state \<Rightarrow> outcome \<times> loader_state" where
  "ingest sch w rows st =
     (case call w Connect st of
        (False, st1) \<Rightarrow> (Returns_None, emit (Log Db_connection_failed) st1)
      | (True, st1) \<Rightarrow>
          (case call w (Cursor (conn st1)) st1 of
             (False, st2) \<Rightarrow> (Returns_None, emit (Log Db_connection_failed) st2)
           | (True, st2) \<Rightarrow>
               after_loop w (run_rows sch w 1 rows (emit (Log Connected) st2))))"

text \<open>
  \<^verbatim>\<open>main\<close> from line 35 on. \<open>blob\<close> is \<open>None\<close> when the object does not exist, and
  otherwise the tokenised lines of its decoded text (lines 39 to 46).
\<close>

definition main :: "string \<Rightarrow> db \<Rightarrow> string list list option \<Rightarrow> outcome \<times> loader_state" where
  "main sch w blob =
     (case blob of
        None \<Rightarrow> (Returns_None, emit (Log Blob_does_not_exist) initial)
      | Some lines \<Rightarrow>
          (let rows = dict_reader lines
           in ingest sch w rows (emit (Log (Parsed_csv (length rows))) initial)))"

section \<open>Observations on a run, and databases used in examples\<close>

fun state_of :: "flow \<Rightarrow> loader_state" where
  "state_of (Next st) = st"
| "state_of (Stop st) = st"
| "state_of (Raised e st) = st"

fun is_call :: "event \<Rightarrow> bool" where
  "is_call (Call c r) = True"
| "is_call (Sleep n) = False"
| "is_call (Log l) = False"

text \<open>How often \<^verbatim>\<open>psycopg2.connect\<close> was called, whatever it answered.\<close>

fun is_connect :: "event \<Rightarrow> bool" where
  "is_connect (Call Connect r) = True"
| "is_connect e = False"

definition connect_attempts :: "event list \<Rightarrow> nat" where
  "connect_attempts tr = length (filter is_connect tr)"

text \<open>The events of lines 77 to 79: the statements of one insert attempt.\<close>

fun is_insert_step :: "event \<Rightarrow> bool" where
  "is_insert_step (Call (Execute n Savepoint) r) = True"
| "is_insert_step (Call (Execute n (Insert s vs)) r) = True"
| "is_insert_step (Call (Execute n Release_savepoint) r) = True"
| "is_insert_step e = False"

text \<open>A database on which every call returns.\<close>

definition db_ok :: db where
  "db_ok h c = True"

text \<open>
  A database that answers the first \<open>n\<close> calls and is unreachable from then on: every
  later call raises, \<^verbatim>\<open>conn.rollback()\<close> and \<^verbatim>\<open>psycopg2.connect\<close> included.
\<close>

definition db_lost_after :: "nat \<Rightarrow> db" where
  "db_lost_after n h c = (length (filter is_call h) < n)"

text \<open>
  A database that refuses every \<^verbatim>\<open>INSERT\<close> and every \<^verbatim>\<open>ROLLBACK TO SAVEPOINT\<close> and
  accepts everything else.
\<close>

definition db_broken_savepoint :: db where
  "db_broken_savepoint h c =
     (case c of
        Execute n (Insert s vs) \<Rightarrow> False
      | Execute n Rollback_to_savepoint \<Rightarrow> False
      | _ \<Rightarrow> True)"

section \<open>The signed-URL service (\<^verbatim>\<open>src/services/uploader/main.py\<close>)\<close>

text \<open>
  \<^verbatim>\<open>str.replace(old, new)\<close>: occurrences of \<open>old\<close> are replaced from left to right and
  do not overlap; an empty \<open>old\<close> matches before every character and at the end.
\<close>

function py_replace :: "string \<Rightarrow> string \<Rightarrow> string \<Rightarrow> string" where
  "py_replace old new [] = (if old = [] then new else [])"
| "py_replace old new (c # s) =
     (if old = [] then new @ concat (map (\<lambda>x. x # new) (c # s))
      else if take (length old) (c # s) = old
      then new @ py_replace old new (drop (length old) (c # s))
      else c # py_replace old new s)"
  by pat_completeness auto
termination
  by (relation "measure (\<lambda>(old, new, s). length s)") auto

text \<open>JSON values as Flask and the Firebase SDK hand them to the code (no floats).\<close>

datatype json =
    JNull
  | JBool bool
  | JInt int
  | JStr string
  | JArray "json list"
  | JObject "(string \<times> json) list"

text \<open>Python truthiness, as \<^verbatim>\<open>if not x\<close> and \<^verbatim>\<open>bool(x)\<close> use it.\<close>

fun truthy :: "json \<Rightarrow> bool" where
  "truthy JNull = False"
| "truthy (JBool b) = b"
| "truthy (JInt i) = (i \<noteq> 0)"
| "truthy (JStr s) = (s \<noteq> [])"
| "truthy (JArray xs) = (xs \<noteq> [])"
| "truthy (JObject kvs) = (kvs \<noteq> [])"

text \<open>\<^verbatim>\<open>d.get(key, dflt)\<close>; \<^verbatim>\<open>d.get(key)\<close> is \<open>dict_get d key JNull\<close>.\<close>

definition dict_get :: "(string \<times> json) list \<Rightarrow> string \<Rightarrow> json \<Rightarrow> json" where
  "dict_get d key dflt = (case map_of d key of None \<Rightarrow> dflt | Some v \<Rightarrow> v)"

text \<open>Lines 12 to 14, the configuration read from the environment.\<close>

record config =
  bucket :: string
  upload_prefix :: string
  signed_url_exp_min :: int

text \<open>
  The document that \<^verbatim>\<open>record_upload_request\<close> writes (\<^verbatim>\<open>requested_at\<close> is the server's
  timestamp sentinel and \<^verbatim>\<open>status\<close> the constant \<^verbatim>\<open>"issued"\<close>).
\<close>

record upload_request =
  req_uid :: json
  req_email :: json
  req_object_name :: string
  req_expires_at :: string
  req_status :: string

text \<open>
  The external services, as oracles. A result \<open>Inl msg\<close> is an \<^verbatim>\<open>Exception\<close> whose text
  is \<open>msg\<close>.
  \<^item> \<open>verify_id_token\<close>: \<^verbatim>\<open>firebase_admin.auth.verify_id_token\<close>, the decoded claims;
  \<^item> \<open>approval_doc\<close>: \<^verbatim>\<open>collection("approvals").document(uid).get()\<close>, \<open>None\<close> for a
    document that does not exist, else its \<^verbatim>\<open>to_dict()\<close>;
  \<^item> \<open>generate_signed_url\<close>: \<^verbatim>\<open>blob.generate_signed_url\<close> for a bucket, an object name,
    an expiration in minutes and a content type;
  \<^item> \<open>col_add\<close>: \<^verbatim>\<open>collection("upload_requests").add(doc)\<close>;
  \<^item> \<open>expires_at_iso\<close>: the clock, \<^verbatim>\<open>(now + timedelta(minutes=m)).isoformat()\<close>.
\<close>

record services =
  verify_id_token :: "string \<Rightarrow> string + (string \<times> json) list"
  approval_doc :: "json \<Rightarrow> string + (string \<times> json) list option"
  generate_signed_url :: "string \<Rightarrow> string \<Rightarrow> int \<Rightarrow> json \<Rightarrow> string + string"
  col_add :: "upload_request \<Rightarrow> string + unit"
  expires_at_iso :: "int \<Rightarrow> string"

text \<open>
  The request: the \<^verbatim>\<open>Authorization\<close> header if present, and the body as
  \<^verbatim>\<open>get_json(force=True)\<close> parses it (\<open>None\<close> when it is not JSON).
\<close>

record request =
  authorization :: "string option"
  body :: "json option"

datatype app_log =
    Token_verification_failed string
  | Firestore_check_failed string
  | Failed_to_record_upload_request string
  | Signed_url_generation_failed string

text \<open>Lines 25 to 35. The result is \<open>None\<close> for Python's \<^verbatim>\<open>None\<close>.\<close>

definition verify_id_token_from_header ::
  "services \<Rightarrow> request \<Rightarrow> (string \<times> json) list option \<times> app_log list" where
  "verify_id_token_from_header sv rq =
     (let auth_header = (case authorization rq of None \<Rightarrow> [] | Some h \<Rightarrow> h)
      in if take 7 auth_header \<noteq> ''Bearer '' then (None, [])
         else
           (let id_token = strip (drop 7 auth_header)
            in case verify_id_token sv id_token of
                 Inr decoded \<Rightarrow> (Some decoded, [])
               | Inl e \<Rightarrow> (None, [Token_verification_failed e])))"

text \<open>Lines 37 to 47.\<close>

definition is_user_approved :: "services \<Rightarrow> json \<Rightarrow> bool \<times> app_log list" where
  "is_user_approved sv uid =
     (case approval_doc sv uid of
        Inl e \<Rightarrow> (False, [Firestore_check_failed e])
      | Inr None \<Rightarrow> (False, [])
      | Inr (Some data) \<Rightarrow> (truthy (dict_get data ''approved'' (JBool False)), []))"

text \<open>
  Lines 49 to 62. The whole body is inside \<^verbatim>\<open>try\<close> ... \<^verbatim>\<open>except Exception\<close>, whose
  handler only logs.
\<close>

definition record_upload_request ::
  "services \<Rightarrow> json \<Rightarrow> json \<Rightarrow> string \<Rightarrow> string \<Rightarrow> outcome \<times> app_log list" where
  "record_upload_request sv uid email object_name expires_at =
     (let doc = \<lparr>req_uid = uid, req_email = email, req_object_name = object_name,
                 req_expires_at = expires_at, req_status = ''issued''\<rparr>
      in case col_add sv doc of
           Inr u \<Rightarrow> (Returns_None, [])
         | Inl e \<Rightarrow> (Returns_None, [Failed_to_record_upload_request e]))"

text \<open>Line 84.\<close>

definition safe_name :: "string \<Rightarrow> string" where
  "safe_name filename = py_replace ''/'' ''_'' (py_replace ''..'' ''_'' filename)"

text \<open>Line 85.\<close>

definition object_name :: "config \<Rightarrow> string \<Rightarrow> string" where
  "object_name cfg filename = upload_prefix cfg @ safe_name filename"

text \<open>
  What the view gives back to Flask: a JSON body with a status, or an exception that
  leaves the view.
\<close>

datatype view_result = Response json nat | Propagates py_exception

text \<open>
  Lines 87 to 106, reached with a string \<open>filename\<close>: sign, record, answer.
\<close>

definition issue_url ::
  "config \<Rightarrow> services \<Rightarrow> json \<Rightarrow> json \<Rightarrow> string \<Rightarrow> json \<Rightarrow> view_result \<times> app_log list" where
  "issue_url cfg sv uid email filename content_type =
     (let obj = object_name cfg filename
      in case generate_signed_url sv (bucket cfg) obj (signed_url_exp_min cfg) content_type of
           Inl e \<Rightarrow>
             (Response (JObject [(''error'', JStr ''signed_url_failed''), (''detail'', JStr e)]) 500,
              [Signed_url_generation_failed e])
         | Inr url \<Rightarrow>
             (let expires_at = expires_at_iso sv (signed_url_exp_min cfg);
                  lg = snd (record_upload_request sv uid email obj expires_at)
              in (Response (JObject [(''url'', JStr url), (''object'', JStr obj),
                                     (''expires_at'', JStr expires_at)]) 200,
                  lg)))"

text \<open>
  Lines 65 to 106. \<^verbatim>\<open>body.get\<close> exists only on a JSON object, and \<^verbatim>\<open>filename.replace\<close>
  only on a string: every other truthy value raises \<^verbatim>\<open>AttributeError\<close> there.
\<close>

definition get_signed_url :: "config \<Rightarrow> services \<Rightarrow> request \<Rightarrow> view_result \<times> app_log list" where
  "get_signed_url cfg sv rq =
     (case verify_id_token_from_header sv rq of
        (None, lg) \<Rightarrow> (Response (JObject [(''error'', JStr ''unauthenticated'')]) 401, lg)
      | (Some decoded, lg) \<Rightarrow>
          if decoded = [] then (Response (JObject [(''error'', JStr ''unauthenticated'')]) 401, lg)
          else
            (let uid = dict_get decoded ''uid'' JNull;
                 email = dict_get decoded ''email'' JNull
             in case is_user_approved sv uid of
                  (False, lg2) \<Rightarrow>
                    (Response (JObject [(''error'', JStr ''user_not_approved'')]) 403, lg @ lg2)
                | (True, lg2) \<Rightarrow>
                    (case body rq of
                       None \<Rightarrow> (Propagates BadRequest, lg @ lg2)
                     | Some (JObject kvs) \<Rightarrow>
                         (let filename = dict_get kvs ''filename'' JNull;
                              content_type =
                                dict_get kvs ''content_type'' (JStr ''application/octet-stream'')
                          in if \<not> truthy filename
                             then (Response (JObject [(''error'', JStr ''missing filename'')]) 400,
                                   lg @ lg2)
                             else
                               (case filename of
                                  JStr f \<Rightarrow>
                                    (case issue_url cfg sv uid email f content_type of
                                       (r, lg3) \<Rightarrow> (r, lg @ lg2 @ lg3))
                                | _ \<Rightarrow> (Propagates AttributeError, lg @ lg2)))
                     | Some _ \<Rightarrow> (Propagates AttributeError, lg @ lg2))))"

section \<open>Observations on names, and an example deployment\<close>

text \<open>Two full stops next to each other somewhere in the text.\<close>

fun adjacent_dots :: "string \<Rightarrow> bool" where
  "adjacent_dots (a # b # s) = ((a = CHR ''.'' \<and> b = CHR ''.'') \<or> adjacent_dots (b # s))"
| "adjacent_dots s = False"

text \<open>
  The defaults of lines 12 to 14, an approved user, a signer that always answers, and an
  audit collection that is down.
\<close>

definition example_config :: config where
  "example_config =
     \<lparr>bucket = ''ingest-pipeline'', upload_prefix = ''incoming/'', signed_url_exp_min = 15\<rparr>"

definition example_services :: services where
  "example_services =
     \<lparr>verify_id_token =
        (\<lambda>tok. if tok = ''token-1''
                then Inr [(''uid'', JStr ''u1''), (''email'', JStr ''ann@example.org'')]
                else Inl ''invalid token''),
      approval_doc =
        (\<lambda>uid. if uid = JStr ''u1'' then Inr (Some [(''approved'', JBool True)]) else Inr None),
      generate_signed_url = (\<lambda>b obj m ct. Inr (''https://storage.example/'' @ b @ ''/'' @ obj)),
      col_add = (\<lambda>doc. Inl ''firestore unavailable''),
      expires_at_iso = (\<lambda>m. ''2026-01-01T00:15:00+00:00'')\<rparr>"

definition example_request :: request where
  "example_request =
     \<lparr>authorization = Some ''Bearer token-1'',
      body = Some (JObject [(''filename'', JStr ''../../etc/passwd'')])\<rparr>"

text \<open>A request of the same user for \<^verbatim>\<open>report.csv\<close>, with a content type.\<close>

definition example_upload :: request where
  "example_upload =
     \<lparr>authorization = Some ''Bearer token-1'',
      body = Some (JObject [(''filename'', JStr ''report.csv''),
                            (''content_type'', JStr ''text/csv'')])\<rparr>"

section \<open>Evaluating concrete runs\<close>

lemmas run_defs = main_def dict_reader_def dict_reader_row_def dict_of_def ingest_def
  after_loop_def finalize_def process_row_def on_insert_error_def reconnect_def try_insert_def
  call_def emit_def normalize_def all_blank_def build_insert_def strip_def py_isspace_def
  initial_def db_ok_def db_lost_after_def db_broken_savepoint_def Let_def

section \<open>Exceptions that leave the ingestion entry point\<close>

text \<open>
  Claim C1 says that no row makes \<^verbatim>\<open>main\<close> end in an uncaught exception, in particular
  not a row under a header whose names carry surrounding whitespace. The code does
  otherwise. For the file \<^verbatim>\<open>id, name\<close> / \<^verbatim>\<open>1,Alice\<close> the second field name is
  \<open>'' name''\<close>; line 62 strips it to \<open>''name''\<close>, line 63 looks \<open>''name''\<close> up in the row,
  whose key is still \<open>'' name''\<close>, and the \<^verbatim>\<open>KeyError\<close> leaves \<^verbatim>\<open>main\<close> with the database
  healthy, nothing inserted, nothing committed and the connection open.
\<close>

theorem whitespace_header_raises:
  "main ''company'' db_ok (Some [[''id'', '' name''], [''1'', ''Alice'']]) =
     (Raises (KeyError ''name''),
      \<lparr>conn = 0, cur = 0, rows_inserted = 0,
       trace = [Log (Parsed_csv 1), Call Connect True, Call (Cursor 0) True, Log Connected]\<rparr>)"
  by (simp add: run_defs)

text \<open>
  Claim C2 says that a row with more fields than the header does not crash and that its
  surplus fields are ignored. The code does otherwise. \<^verbatim>\<open>csv.DictReader\<close> stores the
  surplus fields under the key \<^verbatim>\<open>None\<close>, and line 62 calls \<^verbatim>\<open>strip\<close> on every key: for
  the file \<^verbatim>\<open>id,name\<close> / \<^verbatim>\<open>1,Alice\<close> / \<^verbatim>\<open>2,Bob,Eng\<close> the first row is inserted, the
  second raises \<^verbatim>\<open>AttributeError\<close> out of \<^verbatim>\<open>main\<close>, and the first row's insert is never
  committed.
\<close>

theorem surplus_field_raises:
  "main ''company'' db_ok
     (Some [[''id'', ''name''], [''1'', ''Alice''], [''2'', ''Bob'', ''Eng'']]) =
     (Raises AttributeError,
      \<lparr>conn = 0, cur = 0, rows_inserted = 1,
       trace = [Log (Parsed_csv 2), Call Connect True, Call (Cursor 0) True, Log Connected,
                Call (Execute 0 Savepoint) True,
                Call (Execute 0 (Insert \<lparr>stmt_schema = ''company'', stmt_fields = [''id'', ''name''],
                                        stmt_placeholders = 2\<rparr>
                                       [VStr ''1'', VStr ''Alice''])) True,
                Call (Execute 0 Release_savepoint) True]\<rparr>)"
  by (simp add: run_defs)

text \<open>
  Claim C4 says that when every row is non-empty and the database accepts every statement
  and the commit, all rows are inserted and the batch is committed. The code does
  otherwise on the file \<^verbatim>\<open>id,dept \<close> / \<^verbatim>\<open>1,Eng\<close> / \<^verbatim>\<open>2,Ops\<close> (a trailing space in the
  header): both rows are non-empty and the database refuses nothing, yet no row is
  inserted and no commit is attempted, because line 63 raises \<^verbatim>\<open>KeyError\<close> on the first
  row.
\<close>

theorem nonempty_rows_not_inserted:
  "main ''company'' db_ok (Some [[''id'', ''dept ''], [''1'', ''Eng''], [''2'', ''Ops'']]) =
     (Raises (KeyError ''dept''),
      \<lparr>conn = 0, cur = 0, rows_inserted = 0,
       trace = [Log (Parsed_csv 2), Call Connect True, Call (Cursor 0) True, Log Connected]\<rparr>)"
  by (simp add: run_defs)

text \<open>
  Claim C6 says, among other things, that normalisation never raises. Lines 62 and 63
  raise on two kinds of record: a \<^verbatim>\<open>KeyError\<close> when a column name changes under
  \<^verbatim>\<open>strip\<close>, an \<^verbatim>\<open>AttributeError\<close> when the record carries surplus fields under the key
  \<^verbatim>\<open>None\<close>.
\<close>

theorem normalize_raises:
  "normalize [(KStr ''name '', VStr ''Bob'')] = Inl (KeyError ''name'') \<and>
   normalize [(KStr ''id'', VStr ''7''), (KNone, VList [''x''])] = Inl AttributeError"
  by (simp add: run_defs)

section \<open>Release of the connection\<close>

text \<open>
  Claim C8 says that cursor and connection are released on every exit path once a
  connection exists, exceptions during row processing included. The code does otherwise.
  Here the database becomes unreachable while the second row is being inserted: the
  \<^verbatim>\<open>INSERT\<close>, the \<^verbatim>\<open>ROLLBACK TO SAVEPOINT\<close> and then \<^verbatim>\<open>conn.rollback()\<close> on line 92 all
  raise. Line 92 is inside no \<^verbatim>\<open>try\<close>, so the exception leaves \<^verbatim>\<open>main\<close> before the
  \<^verbatim>\<open>finally\<close> of lines 114 to 119 is ever entered: the trace ends without a
  \<open>Cur_close\<close> or a \<open>Conn_close\<close>.
\<close>

theorem lost_connection_leaks:
  "ingest ''company'' (db_lost_after 6)
     [[(KStr ''id'', VStr ''1'')], [(KStr ''id'', VStr ''2'')]] initial =
     (Raises DatabaseError,
      \<lparr>conn = 0, cur = 0, rows_inserted = 1,
       trace = [Call Connect True, Call (Cursor 0) True, Log Connected,
                Call (Execute 0 Savepoint) True,
                Call (Execute 0 (Insert \<lparr>stmt_schema = ''company'', stmt_fields = [''id''],
                                        stmt_placeholders = 1\<rparr> [VStr ''1''])) True,
                Call (Execute 0 Release_savepoint) True,
                Call (Execute 0 Savepoint) True,
                Call (Execute 0 (Insert \<lparr>stmt_schema = ''company'', stmt_fields = [''id''],
                                        stmt_placeholders = 1\<rparr> [VStr ''2''])) False,
                Log (Insert_failed 2 \<lparr>stmt_schema = ''company'', stmt_fields = [''id''],
                                      stmt_placeholders = 1\<rparr>),
                Log (Values_logged [VStr ''2'']), Log (Row_error 2),
                Call (Execute 0 Rollback_to_savepoint) False,
                Call (Conn_rollback 0) False]\<rparr>)"
  by (simp add: run_defs)

section \<open>Rows that are skipped\<close>

text \<open>
  Claim C3, as the code has it. \<^verbatim>\<open>main\<close> returns \<^verbatim>\<open>None\<close> and keeps one counter,
  \<^verbatim>\<open>rows_inserted\<close>; there is no outcome record and no counter of skipped or rejected
  rows. The run below, on the file \<^verbatim>\<open>id,name\<close> / \<^verbatim>\<open> ,\<close>, shows everything a run over
  one blank row produces: the return value \<^verbatim>\<open>None\<close>, \<open>rows_inserted = 0\<close>, and the log
  record \<open>Skipping_empty_row 1\<close>.
\<close>

theorem blank_row_run:
  "main ''company'' db_ok (Some [[''id'', ''name''], ['' '', '''']]) =
     (Returns_None,
      \<lparr>conn = 0, cur = 0, rows_inserted = 0,
       trace = [Log (Parsed_csv 1), Call Connect True, Call (Cursor 0) True, Log Connected,
                Log (Skipping_empty_row 1),
                Call (Conn_commit 0) True, Log (Committed 0),
                Call (Cur_close 0) True, Call (Conn_close 0) True,
                Log (Done_processing 0)]\<rparr>)"
  by (simp add: run_defs)

text \<open>
  Claim C3, amended: for every row on which lines 62 and 63 return and whose values are
  all \<^verbatim>\<open>None\<close> or empty after trimming, the iteration changes nothing but the log, to
  which it adds exactly one record, \<open>Skipping_empty_row\<close> with the row's number. So the
  row leaves \<open>rows_inserted\<close> as it was, reaches no database call, and is logged neither
  as failed nor as an error.
\<close>

theorem blank_row_is_skipped:
  assumes "normalize row = Inr (columns, vals)" and "all_blank vals"
  shows "process_row sch w idx row st =
           Next (st\<lparr>trace := trace st @ [Log (Skipping_empty_row idx)]\<rparr>)"
  using assms by (simp add: process_row_def emit_def)

theorem blank_row_is_skipped_witness:
  "normalize [(KStr ''id'', VStr '' ''), (KStr ''name'', VNone)] =
     Inr ([''id'', ''name''], [VStr '''', VNone]) \<and>
   all_blank [VStr '''', VNone] \<and>
   process_row ''company'' db_ok 3 [(KStr ''id'', VStr '' ''), (KStr ''name'', VNone)] initial =
     Next (initial\<lparr>trace := trace initial @ [Log (Skipping_empty_row 3)]\<rparr>)"
proof -
  have n: "normalize [(KStr ''id'', VStr '' ''), (KStr ''name'', VNone)] =
     Inr ([''id'', ''name''], [VStr '''', VNone])"
    by (simp add: normalize_def strip_def py_isspace_def)
  have b: "all_blank [VStr '''', VNone]"
    by (simp add: all_blank_def)
  from blank_row_is_skipped[OF n b] n b show ?thesis by blast
qed

section \<open>Rows without columns\<close>












section \<open>The reconnect handler\<close>

lemma call_eq:
  "call w c st = (w (trace st) c, st\<lparr>trace := trace st @ [Call c (w (trace st) c)]\<rparr>)"
  by (simp add: call_def emit_def Let_def)

lemma try_insert_steps:
  "\<exists>r evs. try_insert w stmt values st = (r, st\<lparr>trace := trace st @ evs\<rparr>) \<and>
            list_all is_insert_step evs"
proof (cases "w (trace st) (Execute (cur st) Savepoint)")
  case False
  then have "try_insert w stmt values st =
      (False, st\<lparr>trace := trace st @ [Call (Execute (cur st) Savepoint) False]\<rparr>)"
    by (simp add: try_insert_def call_eq)
  then show ?thesis by (intro exI[of _ False] exI[of _ "[Call (Execute (cur st) Savepoint) False]"]) simp
next
  case sp: True
  define t1 where "t1 = trace st @ [Call (Execute (cur st) Savepoint) True]"
  show ?thesis
  proof (cases "w t1 (Execute (cur st) (Insert stmt values))")
    case False
    with sp have "try_insert w stmt values st =
      (False, st\<lparr>trace := trace st @ [Call (Execute (cur st) Savepoint) True,
                  Call (Execute (cur st) (Insert stmt values)) False]\<rparr>)"
      by (simp add: try_insert_def call_eq t1_def)
    then show ?thesis
      by (intro exI[of _ False] exI[of _ "[Call (Execute (cur st) Savepoint) True,
                  Call (Execute (cur st) (Insert stmt values)) False]"]) simp
  next
    case ins: True
    define r where "r = w (t1 @ [Call (Execute (cur st) (Insert stmt values)) True])
                          (Execute (cur st) Release_savepoint)"
    from sp ins have "try_insert w stmt values st =
      (r, st\<lparr>trace := trace st @ [Call (Execute (cur st) Savepoint) True,
                  Call (Execute (cur st) (Insert stmt values)) True,
                  Call (Execute (cur st) Release_savepoint) r]\<rparr>)"
      by (simp add: try_insert_def call_eq t1_def r_def)
    then show ?thesis
      by (intro exI[of _ r] exI[of _ "[Call (Execute (cur st) Savepoint) True,
                  Call (Execute (cur st) (Insert stmt values)) True,
                  Call (Execute (cur st) Release_savepoint) r]"]) simp
  qed
qed

lemma on_insert_error_cases:
  "on_insert_error w idx stmt values st =
     Next (st\<lparr>trace := trace st @ [Log (Insert_failed idx stmt), Log (Values_logged values),
               Log (Row_error idx), Call (Execute (cur st) Rollback_to_savepoint) True]\<rparr>) \<or>
   on_insert_error w idx stmt values st =
     reconnect w (st\<lparr>trace := trace st @ [Log (Insert_failed idx stmt), Log (Values_logged values),
               Log (Row_error idx), Call (Execute (cur st) Rollback_to_savepoint) False]\<rparr>)"
  by (cases "w (trace st @ [Log (Insert_failed idx stmt), Log (Values_logged values),
               Log (Row_error idx)]) (Execute (cur st) Rollback_to_savepoint)")
     (simp_all add: on_insert_error_def call_eq emit_def)

lemma reconnect_cases:
  "reconnect w st =
     Raised DatabaseError (st\<lparr>trace := trace st @ [Call (Conn_rollback (conn st)) False]\<rparr>) \<or>
   (\<exists>r. reconnect w st =
     Stop (st\<lparr>trace := trace st @ [Call (Conn_rollback (conn st)) True,
              Call (Conn_close (conn st)) r, Sleep 1, Call Connect False,
              Log Reconnection_failed]\<rparr>)) \<or>
   (\<exists>r. reconnect w st =
     Stop (st\<lparr>conn := Suc (conn st),
              trace := trace st @ [Call (Conn_rollback (conn st)) True,
              Call (Conn_close (conn st)) r, Sleep 1, Call Connect True,
              Call (Cursor (Suc (conn st))) False, Log Reconnection_failed]\<rparr>)) \<or>
   (\<exists>r. reconnect w st =
     Next (st\<lparr>conn := Suc (conn st), cur := Suc (conn st),
              trace := trace st @ [Call (Conn_rollback (conn st)) True,
              Call (Conn_close (conn st)) r, Sleep 1, Call Connect True,
              Call (Cursor (Suc (conn st))) True]\<rparr>))"
proof (cases "w (trace st) (Conn_rollback (conn st))")
  case False
  then show ?thesis by (simp add: reconnect_def call_eq)
next
  case rb: True
  define r where "r = w (trace st @ [Call (Conn_rollback (conn st)) True]) (Conn_close (conn st))"
  define t3 where "t3 = trace st @ [Call (Conn_rollback (conn st)) True,
              Call (Conn_close (conn st)) r, Sleep 1]"
  show ?thesis
  proof (cases "w t3 Connect")
    case False
    with rb have "reconnect w st =
     Stop (st\<lparr>trace := trace st @ [Call (Conn_rollback (conn st)) True,
              Call (Conn_close (conn st)) r, Sleep 1, Call Connect False,
              Log Reconnection_failed]\<rparr>)"
      by (simp add: reconnect_def call_eq emit_def r_def t3_def)
    then show ?thesis by blast
  next
    case cn: True
    show ?thesis
    proof (cases "w (t3 @ [Call Connect True]) (Cursor (Suc (conn st)))")
      case False
      with rb cn have "reconnect w st =
        Stop (st\<lparr>conn := Suc (conn st),
              trace := trace st @ [Call (Conn_rollback (conn st)) True,
              Call (Conn_close (conn st)) r, Sleep 1, Call Connect True,
              Call (Cursor (Suc (conn st))) False, Log Reconnection_failed]\<rparr>)"
        by (simp add: reconnect_def call_eq emit_def r_def t3_def)
      then show ?thesis by blast
    next
      case True
      with rb cn have "reconnect w st =
        Next (st\<lparr>conn := Suc (conn st), cur := Suc (conn st),
              trace := trace st @ [Call (Conn_rollback (conn st)) True,
              Call (Conn_close (conn st)) r, Sleep 1, Call Connect True,
              Call (Cursor (Suc (conn st))) True]\<rparr>)"
        by (simp add: reconnect_def call_eq emit_def r_def t3_def)
      then show ?thesis by blast
    qed
  qed
qed


lemma insert_step_not_connect: "is_insert_step e \<Longrightarrow> \<not> is_connect e"
  by (cases e rule: is_insert_step.cases) simp_all

lemma insert_steps_no_connect:
  "list_all is_insert_step evs \<Longrightarrow> filter is_connect evs = []"
  by (induction evs) (simp_all add: insert_step_not_connect)

lemma insert_steps_takeWhile:
  "list_all is_insert_step evs \<Longrightarrow>
   takeWhile (\<lambda>e. \<not> is_connect e) (evs @ ys) = evs @ takeWhile (\<lambda>e. \<not> is_connect e) ys"
  by (induction evs) (simp_all add: insert_step_not_connect)

lemma insert_steps_mem:
  "list_all is_insert_step evs \<Longrightarrow> \<not> is_insert_step e \<Longrightarrow> e \<notin> set evs"
  by (auto simp: list_all_iff)

text \<open>
  Claim C5, as the code has it. First run: the database is unreachable from the
  \<^verbatim>\<open>INSERT\<close> on, so \<^verbatim>\<open>ROLLBACK TO SAVEPOINT\<close> raises and then \<^verbatim>\<open>conn.rollback()\<close> on
  line 92, which is inside no \<^verbatim>\<open>try\<close>, raises too: the exception leaves \<^verbatim>\<open>main\<close> and no
  reconnect is attempted. Second run: \<^verbatim>\<open>ROLLBACK TO SAVEPOINT\<close> raises, everything after
  it returns, and the reconnect succeeds; the run ends with \<open>rows_inserted = 0\<close> and a
  log that says nothing of the reconnect, there being no reconnect counter.
\<close>

theorem reconnect_runs:
  "main ''company'' (db_lost_after 3) (Some [[''id''], [''1'']]) =
     (Raises DatabaseError,
      \<lparr>conn = 0, cur = 0, rows_inserted = 0,
       trace = [Log (Parsed_csv 1), Call Connect True, Call (Cursor 0) True, Log Connected,
                Call (Execute 0 Savepoint) True,
                Call (Execute 0 (Insert \<lparr>stmt_schema = ''company'', stmt_fields = [''id''],
                                        stmt_placeholders = 1\<rparr> [VStr ''1''])) False,
                Log (Insert_failed 1 \<lparr>stmt_schema = ''company'', stmt_fields = [''id''],
                                      stmt_placeholders = 1\<rparr>),
                Log (Values_logged [VStr ''1'']), Log (Row_error 1),
                Call (Execute 0 Rollback_to_savepoint) False,
                Call (Conn_rollback 0) False]\<rparr>) \<and>
   main ''company'' db_broken_savepoint (Some [[''id''], [''1'']]) =
     (Returns_None,
      \<lparr>conn = 1, cur = 1, rows_inserted = 0,
       trace = [Log (Parsed_csv 1), Call Connect True, Call (Cursor 0) True, Log Connected,
                Call (Execute 0 Savepoint) True,
                Call (Execute 0 (Insert \<lparr>stmt_schema = ''company'', stmt_fields = [''id''],
                                        stmt_placeholders = 1\<rparr> [VStr ''1''])) False,
                Log (Insert_failed 1 \<lparr>stmt_schema = ''company'', stmt_fields = [''id''],
                                      stmt_placeholders = 1\<rparr>),
                Log (Values_logged [VStr ''1'']), Log (Row_error 1),
                Call (Execute 0 Rollback_to_savepoint) False,
                Call (Conn_rollback 0) True, Call (Conn_close 0) True, Sleep 1,
                Call Connect True, Call (Cursor 1) True,
                Call (Conn_commit 1) True, Log (Committed 0),
                Call (Cur_close 1) True, Call (Conn_close 1) True,
                Log (Done_processing 0)]\<rparr>)"
  by (simp add: run_defs)

text \<open>
  Claim C5, amended. Take any iteration of the loop, and let \<open>new\<close> be the events it adds
  to the trace. If in it \<^verbatim>\<open>ROLLBACK TO SAVEPOINT\<close> raised and the \<^verbatim>\<open>conn.rollback()\<close> of
  line 92 returned, then:
  \<^item> \<^verbatim>\<open>psycopg2.connect\<close> is called exactly once in the iteration, and the event just
    before that call is the one-second sleep;
  \<^item> \<open>rows_inserted\<close> is unchanged;
  \<^item> if \<^verbatim>\<open>connect\<close> and \<^verbatim>\<open>conn.cursor()\<close> both returned, the iteration ends normally and
    the batch goes on with the next row, from the state the iteration left;
  \<^item> otherwise the loop is left: whatever rows remain, none is attempted, and what follows
    is the commit-and-release block on the state the iteration left.
  Nothing is said of the case in which \<^verbatim>\<open>conn.rollback()\<close> raises.
\<close>

theorem reconnect_once:
  assumes fl: "process_row sch w idx row st = fl"
    and new: "new = drop (length (trace st)) (trace (state_of fl))"
    and sp: "Call (Execute c Rollback_to_savepoint) False \<in> set new"
    and rb: "Call (Conn_rollback c') True \<in> set new"
  shows "connect_attempts new = 1 \<and>
         last (takeWhile (\<lambda>e. \<not> is_connect e) new) = Sleep 1 \<and>
         rows_inserted (state_of fl) = rows_inserted st \<and>
         (if Call Connect True \<in> set new \<and> Call (Cursor (Suc c')) True \<in> set new
          then fl = Next (state_of fl) \<and>
               (\<forall>rows. after_loop w (run_rows sch w idx (row # rows) st) =
                         after_loop w (run_rows sch w (Suc idx) rows (state_of fl)))
          else fl = Stop (state_of fl) \<and>
               (\<forall>rows. after_loop w (run_rows sch w idx (row # rows) st) =
                         (Returns_None, finalize w (state_of fl))))"
proof (cases "normalize row")
  case (Inl e)
  with fl have "fl = Raised e st" by (simp add: process_row_def)
  with new sp show ?thesis by simp
next
  case (Inr cv)
  obtain columns vals where cv: "cv = (columns, vals)" by (cases cv)
  show ?thesis
  proof (cases "all_blank vals")
    case True
    with fl Inr cv have "fl = Next (emit (Log (Skipping_empty_row idx)) st)"
      by (simp add: process_row_def)
    with new sp show ?thesis by (simp add: emit_def)
  next
    case nb: False
    define stmt where "stmt = build_insert sch columns"
    obtain r evs where ti: "try_insert w stmt vals st = (r, st\<lparr>trace := trace st @ evs\<rparr>)"
      and evs: "list_all is_insert_step evs"
      using try_insert_steps by blast
    note no = insert_steps_mem[OF evs] insert_steps_no_connect[OF evs]
      insert_steps_takeWhile[OF evs]
    show ?thesis
    proof (cases r)
      case True
      with fl Inr cv nb ti have
        "fl = Next (st\<lparr>trace := trace st @ evs, rows_inserted := rows_inserted st + 1\<rparr>)"
        by (simp add: process_row_def stmt_def)
      with new sp no show ?thesis by simp
    next
      case False
      define st1 where "st1 = st\<lparr>trace := trace st @ evs\<rparr>"
      from False fl Inr cv nb ti have fl1: "fl = on_insert_error w idx stmt vals st1"
        by (simp add: process_row_def stmt_def st1_def)
      define st2 where "st2 = st1\<lparr>trace := trace st1 @ [Log (Insert_failed idx stmt),
          Log (Values_logged vals), Log (Row_error idx),
          Call (Execute (cur st1) Rollback_to_savepoint) False]\<rparr>"
      from on_insert_error_cases[of w idx stmt vals st1]
      consider
        (ok) "fl = Next (st1\<lparr>trace := trace st1 @ [Log (Insert_failed idx stmt),
               Log (Values_logged vals), Log (Row_error idx),
               Call (Execute (cur st1) Rollback_to_savepoint) True]\<rparr>)"
      | (rec) "fl = reconnect w st2"
        unfolding fl1 st2_def by blast
      then show ?thesis
      proof cases
        case ok
        with new sp no show ?thesis by (simp add: st1_def)
      next
        case rec
        have loop: "after_loop w (run_rows sch w idx (row # rows) st) =
            (case fl of Next s \<Rightarrow> after_loop w (run_rows sch w (Suc idx) rows s)
             | Stop s \<Rightarrow> (Returns_None, finalize w s)
             | Raised e s \<Rightarrow> (Raises e, s))" for rows
          using fl by (cases fl) (simp_all add: after_loop_def)
        from reconnect_cases[of w st2]
        consider
          (a) "fl = Raised DatabaseError
                 (st2\<lparr>trace := trace st2 @ [Call (Conn_rollback (conn st2)) False]\<rparr>)"
        | (b) r1 where "fl = Stop (st2\<lparr>trace := trace st2 @ [Call (Conn_rollback (conn st2)) True,
                 Call (Conn_close (conn st2)) r1, Sleep 1, Call Connect False,
                 Log Reconnection_failed]\<rparr>)"
        | (c) r1 where "fl = Stop (st2\<lparr>conn := Suc (conn st2),
                 trace := trace st2 @ [Call (Conn_rollback (conn st2)) True,
                 Call (Conn_close (conn st2)) r1, Sleep 1, Call Connect True,
                 Call (Cursor (Suc (conn st2))) False, Log Reconnection_failed]\<rparr>)"
        | (d) r1 where "fl = Next (st2\<lparr>conn := Suc (conn st2), cur := Suc (conn st2),
                 trace := trace st2 @ [Call (Conn_rollback (conn st2)) True,
                 Call (Conn_close (conn st2)) r1, Sleep 1, Call Connect True,
                 Call (Cursor (Suc (conn st2))) True]\<rparr>)"
          unfolding rec by blast
        then show ?thesis
        proof cases
          case a
          with new rb no show ?thesis by (simp add: st1_def st2_def)
        next
          case b
          with new rb no have "c' = conn st" by (simp add: st1_def st2_def)
          with b new no loop show ?thesis
            by (simp add: st1_def st2_def connect_attempts_def)
        next
          case c
          with new rb no have "c' = conn st" by (simp add: st1_def st2_def)
          with c new no loop show ?thesis
            by (simp add: st1_def st2_def connect_attempts_def)
        next
          case d
          with new rb no have "c' = conn st" by (simp add: st1_def st2_def)
          with d new no loop show ?thesis
            by (simp add: st1_def st2_def connect_attempts_def)
        qed
      qed
    qed
  qed
qed

theorem reconnect_once_witness:
  "Call (Execute 0 Rollback_to_savepoint) False \<in>
     set (drop (length (trace initial)) (trace (state_of
       (process_row ''company'' db_broken_savepoint 1 [(KStr ''id'', VStr ''1'')] initial)))) \<and>
   Call (Conn_rollback 0) True \<in>
     set (drop (length (trace initial)) (trace (state_of
       (process_row ''company'' db_broken_savepoint 1 [(KStr ''id'', VStr ''1'')] initial)))) \<and>
   connect_attempts (drop (length (trace initial)) (trace (state_of
       (process_row ''company'' db_broken_savepoint 1 [(KStr ''id'', VStr ''1'')] initial)))) = 1 \<and>
   rows_inserted (state_of
       (process_row ''company'' db_broken_savepoint 1 [(KStr ''id'', VStr ''1'')] initial)) = 0 \<and>
   (\<forall>rows. after_loop db_broken_savepoint
              (run_rows ''company'' db_broken_savepoint 1 ([(KStr ''id'', VStr ''1'')] # rows) initial) =
            after_loop db_broken_savepoint
              (run_rows ''company'' db_broken_savepoint (Suc 1) rows (state_of
                 (process_row ''company'' db_broken_savepoint 1 [(KStr ''id'', VStr ''1'')] initial))))"
proof -
  define fl where
    "fl = process_row ''company'' db_broken_savepoint 1 [(KStr ''id'', VStr ''1'')] initial"
  define new where "new = drop (length (trace initial)) (trace (state_of fl))"
  have ev: "new =
      [Call (Execute 0 Savepoint) True,
       Call (Execute 0 (Insert \<lparr>stmt_schema = ''company'', stmt_fields = [''id''],
                               stmt_placeholders = 1\<rparr> [VStr ''1''])) False,
       Log (Insert_failed 1 \<lparr>stmt_schema = ''company'', stmt_fields = [''id''],
                             stmt_placeholders = 1\<rparr>),
       Log (Values_logged [VStr ''1'']), Log (Row_error 1),
       Call (Execute 0 Rollback_to_savepoint) False,
       Call (Conn_rollback 0) True, Call (Conn_close 0) True, Sleep 1,
       Call Connect True, Call (Cursor 1) True]"
    by (simp add: new_def fl_def run_defs)
  have sp: "Call (Execute 0 Rollback_to_savepoint) False \<in> set new"
    by (simp add: ev)
  have rb: "Call (Conn_rollback 0) True \<in> set new"
    by (simp add: ev)
  have ok: "Call Connect True \<in> set new \<and> Call (Cursor (Suc 0)) True \<in> set new"
    by (simp add: ev)
  have ini: "rows_inserted initial = 0"
    by (simp add: initial_def)
  from reconnect_once[OF fl_def[symmetric] new_def sp rb] ok
  have "connect_attempts new = 1 \<and> rows_inserted (state_of fl) = rows_inserted initial \<and>
        (\<forall>rows. after_loop db_broken_savepoint
              (run_rows ''company'' db_broken_savepoint 1 ([(KStr ''id'', VStr ''1'')] # rows) initial) =
            after_loop db_broken_savepoint
              (run_rows ''company'' db_broken_savepoint (Suc 1) rows (state_of fl)))"
    by simp
  with sp rb ini show ?thesis
    unfolding new_def fl_def by simp
qed

section \<open>Rows that are inserted\<close>

text \<open>
  Lines 62 and 63 return on every record whose keys are strings that \<^verbatim>\<open>strip\<close> leaves
  unchanged: the columns are the keys, and there is one value per key.
\<close>

lemma strip_keys_returns:
  "\<forall>k\<in>set ks. \<exists>c. k = KStr c \<Longrightarrow>
   strip_keys ks = Inr (map (\<lambda>k. case k of KStr c \<Rightarrow> strip c | KNone \<Rightarrow> []) ks)"
  by (induction ks rule: strip_keys.induct) auto

lemma strip_values_returns:
  "\<forall>c\<in>set cols. map_of row (KStr c) \<noteq> None \<Longrightarrow>
   \<exists>vals. strip_values row cols = Inr vals \<and> length vals = length cols"
  by (induction cols) auto

lemma normalize_returns:
  assumes "\<forall>k\<in>set (map fst row). \<exists>c. k = KStr c \<and> strip c = c"
  shows "\<exists>vals. normalize row =
           Inr (map (\<lambda>k. case k of KStr c \<Rightarrow> c | KNone \<Rightarrow> []) (map fst row), vals) \<and>
           length vals = length row"
proof -
  let ?cols = "map (\<lambda>k. case k of KStr c \<Rightarrow> strip c | KNone \<Rightarrow> []) (map fst row)"
  from assms have k: "strip_keys (map fst row) = Inr ?cols"
    by (intro strip_keys_returns) blast
  from assms have same: "?cols = map (\<lambda>k. case k of KStr c \<Rightarrow> c | KNone \<Rightarrow> []) (map fst row)"
    by (intro map_cong) auto
  have "\<forall>c\<in>set ?cols. map_of row (KStr c) \<noteq> None"
  proof
    fix c assume "c \<in> set ?cols"
    then obtain k where kin: "k \<in> set (map fst row)"
      and c: "c = (case k of KStr c \<Rightarrow> strip c | KNone \<Rightarrow> [])" by auto
    with assms obtain d where "k = KStr d" "strip d = d" by blast
    with c kin have "KStr c \<in> fst ` set row" by simp
    then show "map_of row (KStr c) \<noteq> None" by (simp add: map_of_eq_None_iff)
  qed
  from strip_values_returns[OF this] obtain vals where
    "strip_values row ?cols = Inr vals" "length vals = length ?cols" by blast
  with k same show ?thesis by (simp add: normalize_def)
qed

text \<open>
  When lines 62 and 63 return on every row with values that are not all empty, and the
  database answers \<^verbatim>\<open>connect\<close>, \<^verbatim>\<open>cursor\<close>, every statement and the commit, every row is
  inserted, the commit is made and logged with the number of rows, and \<^verbatim>\<open>main\<close> returns.
\<close>

lemma process_row_inserts:
  assumes n: "normalize row = Inr (columns, vals)" and nb: "\<not> all_blank vals"
    and ex: "\<forall>h n c. w h (Execute n c)"
  shows "process_row sch w idx row st =
           Next (st\<lparr>trace := trace st @
                   [Call (Execute (cur st) Savepoint) True,
                    Call (Execute (cur st) (Insert (build_insert sch columns) vals)) True,
                    Call (Execute (cur st) Release_savepoint) True],
                  rows_inserted := rows_inserted st + 1\<rparr>)"
proof -
  have "try_insert w (build_insert sch columns) vals st =
      (True, st\<lparr>trace := trace st @
         [Call (Execute (cur st) Savepoint) True,
          Call (Execute (cur st) (Insert (build_insert sch columns) vals)) True,
          Call (Execute (cur st) Release_savepoint) True]\<rparr>)"
    using ex by (simp add: try_insert_def call_eq)
  with n nb show ?thesis
    by (simp add: process_row_def)
qed

lemma run_rows_inserts:
  assumes ex: "\<forall>h n c. w h (Execute n c)"
    and rows: "\<forall>row\<in>set rows. \<exists>columns vals.
                 normalize row = Inr (columns, vals) \<and> \<not> all_blank vals"
  shows "\<exists>evs. run_rows sch w idx rows st =
           Next (st\<lparr>trace := trace st @ evs, rows_inserted := rows_inserted st + length rows\<rparr>)"
  using rows
proof (induction rows arbitrary: idx st)
  case Nil
  have "run_rows sch w idx [] st =
      Next (st\<lparr>trace := trace st @ [], rows_inserted := rows_inserted st + length ([]::raw_record list)\<rparr>)"
    by simp
  then show ?case by blast
next
  case (Cons row rows)
  then obtain columns vals where n: "normalize row = Inr (columns, vals)" and nb: "\<not> all_blank vals"
    by auto
  define evs where "evs = [Call (Execute (cur st) Savepoint) True,
                    Call (Execute (cur st) (Insert (build_insert sch columns) vals)) True,
                    Call (Execute (cur st) Release_savepoint) True]"
  define st1 where "st1 = st\<lparr>trace := trace st @ evs, rows_inserted := rows_inserted st + 1\<rparr>"
  have p: "process_row sch w idx row st = Next st1"
    using process_row_inserts[OF n nb ex] by (simp add: st1_def evs_def)
  from Cons have "\<forall>row\<in>set rows. \<exists>columns vals.
                 normalize row = Inr (columns, vals) \<and> \<not> all_blank vals"
    by simp
  from Cons.IH[OF this, of "Suc idx" st1] obtain evs' where
    r: "run_rows sch w (Suc idx) rows st1 =
          Next (st1\<lparr>trace := trace st1 @ evs', rows_inserted := rows_inserted st1 + length rows\<rparr>)"
    by blast
  have "run_rows sch w idx (row # rows) st =
      Next (st\<lparr>trace := trace st @ (evs @ evs'),
                rows_inserted := rows_inserted st + length (row # rows)\<rparr>)"
    using p r by (simp add: st1_def)
  then show ?case by blast
qed

lemma well_formed_rows_all_inserted:
  assumes rows: "\<forall>row\<in>set rows. \<exists>columns vals.
                   normalize row = Inr (columns, vals) \<and> \<not> all_blank vals"
    and cn: "\<forall>h. w h Connect" and cu: "\<forall>h n. w h (Cursor n)"
    and ex: "\<forall>h n c. w h (Execute n c)" and cm: "\<forall>h n. w h (Conn_commit n)"
  shows "\<exists>st. ingest sch w rows st0 = (Returns_None, st) \<and>
              rows_inserted st = rows_inserted st0 + length rows \<and>
              Call (Conn_commit (conn st0)) True \<in> set (trace st) \<and>
              Log (Committed (rows_inserted st0 + length rows)) \<in> set (trace st)"
proof -
  define st2 where "st2 = st0\<lparr>trace := trace st0 @ [Call Connect True,
      Call (Cursor (conn st0)) True, Log Connected]\<rparr>"
  from run_rows_inserts[OF ex rows, of sch 1 st2] obtain evs where
    r: "run_rows sch w 1 rows st2 =
          Next (st2\<lparr>trace := trace st2 @ evs, rows_inserted := rows_inserted st2 + length rows\<rparr>)"
    by blast
  have "ingest sch w rows st0 = (Returns_None,
      finalize w (st2\<lparr>trace := trace st2 @ evs, rows_inserted := rows_inserted st2 + length rows\<rparr>))"
    using r cn cu by (simp add: ingest_def call_eq emit_def st2_def after_loop_def)
  then show ?thesis
    using cm by (simp add: finalize_def call_eq emit_def st2_def Let_def split: bool.split prod.split)
qed

section \<open>The audit record and the issued object name\<close>

lemma adjacent_dots_append: "adjacent_dots (xs @ ''..'' @ ys)"
  by (induction xs rule: adjacent_dots.induct) auto

lemma adjacent_dots_split: "adjacent_dots s \<Longrightarrow> \<exists>xs ys. s = xs @ ''..'' @ ys"
proof (induction s rule: adjacent_dots.induct)
  case (1 a b s)
  show ?case
  proof (cases "a = CHR ''.'' \<and> b = CHR ''.''")
    case True
    then have "a # b # s = [] @ ''..'' @ s" by simp
    then show ?thesis by blast
  next
    case False
    with 1 obtain xs ys where "b # s = xs @ ''..'' @ ys" by auto
    then have "a # b # s = (a # xs) @ ''..'' @ ys" by simp
    then show ?thesis by blast
  qed
qed simp_all

lemma replace_slash: "py_replace ''/'' ''_'' s = map (\<lambda>c. if c = CHR ''/'' then CHR ''_'' else c) s"
  by (induction s) simp_all

lemma replace_dots_Nil: "py_replace ''..'' ''_'' [] = []"
  by simp

lemma replace_dots_two: "py_replace ''..'' ''_'' (CHR ''.'' # CHR ''.'' # s) = CHR ''_'' # py_replace ''..'' ''_'' s"
  by simp

lemma replace_dots_other:
  "\<not> (c = CHR ''.'' \<and> (\<exists>t. s = CHR ''.'' # t)) \<Longrightarrow>
   py_replace ''..'' ''_'' (c # s) = c # py_replace ''..'' ''_'' s"
  by (cases s) auto

lemma replace_dots_head:
  "\<not> (\<exists>t. s = CHR ''.'' # t) \<Longrightarrow> \<not> (\<exists>t. py_replace ''..'' ''_'' s = CHR ''.'' # t)"
proof (cases s)
  case Nil
  then show ?thesis by simp
next
  case (Cons d t)
  assume "\<not> (\<exists>t. s = CHR ''.'' # t)"
  with Cons have "d \<noteq> CHR ''.''" by simp
  with Cons show ?thesis by (simp add: replace_dots_other)
qed

lemma adjacent_dots_Cons:
  "adjacent_dots (c # s) = ((c = CHR ''.'' \<and> (\<exists>t. s = CHR ''.'' # t)) \<or> adjacent_dots s)"
  by (cases s) auto

lemma replace_dots_clean: "\<not> adjacent_dots (py_replace ''..'' ''_'' s)"
proof (induction s rule: length_induct)
  case (1 s)
  show ?case
  proof (cases s)
    case Nil
    then show ?thesis by simp
  next
    case (Cons c t)
    show ?thesis
    proof (cases "c = CHR ''.'' \<and> (\<exists>u. t = CHR ''.'' # u)")
      case True
      then obtain u where u: "t = CHR ''.'' # u" and c: "c = CHR ''.''" by blast
      from 1 Cons u have "\<not> adjacent_dots (py_replace ''..'' ''_'' u)" by simp
      with Cons u c show ?thesis
        by (simp only: replace_dots_two adjacent_dots_Cons) simp
    next
      case False
      from 1 Cons have ih: "\<not> adjacent_dots (py_replace ''..'' ''_'' t)" by simp
      have hd: "c = CHR ''.'' \<Longrightarrow> \<not> (\<exists>u. py_replace ''..'' ''_'' t = CHR ''.'' # u)"
        using False replace_dots_head[of t] by blast
      from False have "py_replace ''..'' ''_'' (c # t) = c # py_replace ''..'' ''_'' t"
        by (rule replace_dots_other)
      with ih hd Cons show ?thesis by (simp only: adjacent_dots_Cons) blast
    qed
  qed
qed

lemma adjacent_dots_map:
  "\<not> adjacent_dots s \<Longrightarrow>
   \<not> adjacent_dots (map (\<lambda>c. if c = CHR ''/'' then CHR ''_'' else c) s)"
  by (induction s rule: adjacent_dots.induct) (auto split: if_splits)

lemma safe_name_no_slash: "CHR ''/'' \<notin> set (safe_name f)"
  by (auto simp: safe_name_def replace_slash)

lemma safe_name_no_dotdot: "\<nexists>xs ys. safe_name f = xs @ ''..'' @ ys"
proof
  assume "\<exists>xs ys. safe_name f = xs @ ''..'' @ ys"
  then have "adjacent_dots (safe_name f)" using adjacent_dots_append by auto
  moreover have "\<not> adjacent_dots (safe_name f)"
    by (simp add: safe_name_def replace_slash adjacent_dots_map replace_dots_clean)
  ultimately show False by blast
qed


text \<open>
  Claim C9: the audit step never blocks the answer of the endpoint. Take any request for
  which \<^verbatim>\<open>get_signed_url\<close> reaches the audit step: the token verifies to a non-empty set
  of claims, the user is approved, the body is a JSON object with a non-empty string
  \<^verbatim>\<open>filename\<close>, and the URL is signed. Then, whatever \<^verbatim>\<open>col.add\<close> does,
  \<^item> \<^verbatim>\<open>get_signed_url\<close> answers with the signed URL, the object name and the expiry time,
    with status 200;
  \<^item> its log is that of the earlier steps, followed by nothing when \<^verbatim>\<open>col.add\<close> returned
    and by the one record of the failure when it raised.
  Also, \<^verbatim>\<open>record_upload_request\<close> returns for all arguments, and for every request the
  response of \<^verbatim>\<open>get_signed_url\<close> stays the same when the audit collection is replaced by
  any other.
\<close>

theorem audit_failure_never_blocks:
  assumes tok: "verify_id_token_from_header sv rq = (Some decoded, lg)" and dec: "decoded \<noteq> []"
    and appr: "is_user_approved sv (dict_get decoded ''uid'' JNull) = (True, lg2)"
    and bdy: "body rq = Some (JObject kvs)"
    and fname: "dict_get kvs ''filename'' JNull = JStr f" and nonempty: "f \<noteq> []"
    and sign: "generate_signed_url sv (bucket cfg) (object_name cfg f) (signed_url_exp_min cfg)
                 (dict_get kvs ''content_type'' (JStr ''application/octet-stream'')) = Inr url"
  shows "get_signed_url cfg sv rq =
           (Response (JObject [(''url'', JStr url), (''object'', JStr (object_name cfg f)),
                               (''expires_at'', JStr (expires_at_iso sv (signed_url_exp_min cfg)))]) 200,
            lg @ lg2 @
            (case col_add sv \<lparr>req_uid = dict_get decoded ''uid'' JNull,
                               req_email = dict_get decoded ''email'' JNull,
                               req_object_name = object_name cfg f,
                               req_expires_at = expires_at_iso sv (signed_url_exp_min cfg),
                               req_status = ''issued''\<rparr> of
               Inr u \<Rightarrow> []
             | Inl e \<Rightarrow> [Failed_to_record_upload_request e])) \<and>
         fst (record_upload_request sv uid email obj exp) = Returns_None \<and>
         fst (get_signed_url cfg (sv\<lparr>col_add := audit\<rparr>) rq) = fst (get_signed_url cfg sv rq)"
proof -
  have a: "get_signed_url cfg sv rq =
           (Response (JObject [(''url'', JStr url), (''object'', JStr (object_name cfg f)),
                               (''expires_at'', JStr (expires_at_iso sv (signed_url_exp_min cfg)))]) 200,
            lg @ lg2 @
            (case col_add sv \<lparr>req_uid = dict_get decoded ''uid'' JNull,
                               req_email = dict_get decoded ''email'' JNull,
                               req_object_name = object_name cfg f,
                               req_expires_at = expires_at_iso sv (signed_url_exp_min cfg),
                               req_status = ''issued''\<rparr> of
               Inr u \<Rightarrow> []
             | Inl e \<Rightarrow> [Failed_to_record_upload_request e]))"
    using assms
    by (simp add: get_signed_url_def issue_url_def record_upload_request_def Let_def
        split: sum.split)
  have b: "fst (record_upload_request sv uid email obj exp) = Returns_None"
    by (simp add: record_upload_request_def Let_def split: sum.split)
  have c: "fst (get_signed_url cfg (sv\<lparr>col_add := audit\<rparr>) rq) = fst (get_signed_url cfg sv rq)"
    by (auto simp: record_upload_request_def get_signed_url_def issue_url_def Let_def
          verify_id_token_from_header_def is_user_approved_def
        split: prod.splits option.splits if_splits json.splits sum.splits bool.splits)
  from a b c show ?thesis by blast
qed

theorem audit_failure_never_blocks_witness:
  "verify_id_token_from_header example_services example_upload =
     (Some [(''uid'', JStr ''u1''), (''email'', JStr ''ann@example.org'')], []) \<and>
   is_user_approved example_services (JStr ''u1'') = (True, []) \<and>
   body example_upload =
     Some (JObject [(''filename'', JStr ''report.csv''), (''content_type'', JStr ''text/csv'')]) \<and>
   generate_signed_url example_services ''ingest-pipeline'' ''incoming/report.csv'' 15
     (JStr ''text/csv'') = Inr ''https://storage.example/ingest-pipeline/incoming/report.csv'' \<and>
   col_add example_services
     \<lparr>req_uid = JStr ''u1'', req_email = JStr ''ann@example.org'',
      req_object_name = ''incoming/report.csv'', req_expires_at = ''2026-01-01T00:15:00+00:00'',
      req_status = ''issued''\<rparr> = Inl ''firestore unavailable'' \<and>
   get_signed_url example_config example_services example_upload =
     (Response (JObject [(''url'', JStr ''https://storage.example/ingest-pipeline/incoming/report.csv''),
                         (''object'', JStr ''incoming/report.csv''),
                         (''expires_at'', JStr ''2026-01-01T00:15:00+00:00'')]) 200,
      [Failed_to_record_upload_request ''firestore unavailable''])"
proof -
  let ?decoded = "[(''uid'', JStr ''u1''), (''email'', JStr ''ann@example.org'')]"
  let ?kvs = "[(''filename'', JStr ''report.csv''), (''content_type'', JStr ''text/csv'')]"
  have tok: "verify_id_token_from_header example_services example_upload = (Some ?decoded, [])"
    by (simp add: verify_id_token_from_header_def example_services_def example_upload_def
        strip_def py_isspace_def)
  have dec: "?decoded \<noteq> []" by simp
  have uid: "dict_get ?decoded ''uid'' JNull = JStr ''u1''"
    and email: "dict_get ?decoded ''email'' JNull = JStr ''ann@example.org''"
    by (simp_all add: dict_get_def)
  have appr: "is_user_approved example_services (dict_get ?decoded ''uid'' JNull) = (True, [])"
    unfolding uid by (simp add: is_user_approved_def example_services_def dict_get_def)
  have bdy: "body example_upload = Some (JObject ?kvs)"
    by (simp add: example_upload_def)
  have fname: "dict_get ?kvs ''filename'' JNull = JStr ''report.csv''"
    by (simp add: dict_get_def)
  have ne: "''report.csv'' \<noteq> []" by simp
  have ct: "dict_get ?kvs ''content_type'' (JStr ''application/octet-stream'') = JStr ''text/csv''"
    by (simp add: dict_get_def)
  have n: "object_name example_config ''report.csv'' = ''incoming/report.csv''"
    by (simp add: object_name_def safe_name_def example_config_def)
  have cfg: "bucket example_config = ''ingest-pipeline''" "signed_url_exp_min example_config = 15"
    by (simp_all add: example_config_def)
  have sign: "generate_signed_url example_services (bucket example_config)
      (object_name example_config ''report.csv'') (signed_url_exp_min example_config)
      (dict_get ?kvs ''content_type'' (JStr ''application/octet-stream'')) =
      Inr ''https://storage.example/ingest-pipeline/incoming/report.csv''"
    unfolding n ct cfg by (simp add: example_services_def)
  have e: "expires_at_iso example_services (signed_url_exp_min example_config) =
      ''2026-01-01T00:15:00+00:00''"
    by (simp add: example_services_def)
  have a: "col_add example_services
     \<lparr>req_uid = JStr ''u1'', req_email = JStr ''ann@example.org'',
      req_object_name = ''incoming/report.csv'', req_expires_at = ''2026-01-01T00:15:00+00:00'',
      req_status = ''issued''\<rparr> = Inl ''firestore unavailable''"
    by (simp add: example_services_def)
  from audit_failure_never_blocks[OF tok dec appr bdy fname ne sign]
  have "get_signed_url example_config example_services example_upload =
     (Response (JObject [(''url'', JStr ''https://storage.example/ingest-pipeline/incoming/report.csv''),
                         (''object'', JStr ''incoming/report.csv''),
                         (''expires_at'', JStr ''2026-01-01T00:15:00+00:00'')]) 200,
      [Failed_to_record_upload_request ''firestore unavailable''])"
    unfolding uid email n e a by simp
  moreover from sign have "generate_signed_url example_services ''ingest-pipeline''
      ''incoming/report.csv'' 15 (JStr ''text/csv'') =
      Inr ''https://storage.example/ingest-pipeline/incoming/report.csv''"
    unfolding n ct cfg .
  moreover from appr have "is_user_approved example_services (JStr ''u1'') = (True, [])"
    unfolding uid .
  ultimately show ?thesis using tok bdy a by blast
qed

text \<open>
  Claim C10: whenever \<^verbatim>\<open>get_signed_url\<close> answers 200, the request's \<^verbatim>\<open>filename\<close> is a
  string \<open>f\<close>, and the \<^verbatim>\<open>object\<close> of the answer is the configured prefix followed by
  \<open>safe_name f\<close>, which contains no \<open>/\<close> and nowhere two full stops in a row.
\<close>

theorem issued_object_name_sanitized:
  assumes "get_signed_url cfg sv rq = (Response (JObject resp) 200, lg)"
  shows "\<exists>kvs f. body rq = Some (JObject kvs) \<and>
           dict_get kvs ''filename'' JNull = JStr f \<and>
           map_of resp ''object'' = Some (JStr (upload_prefix cfg @ safe_name f)) \<and>
           CHR ''/'' \<notin> set (safe_name f) \<and>
           (\<nexists>xs ys. safe_name f = xs @ ''..'' @ ys)"
  using assms safe_name_no_slash safe_name_no_dotdot
  by (auto simp: get_signed_url_def issue_url_def object_name_def Let_def
      split: prod.splits option.splits if_splits json.splits sum.splits bool.splits)

theorem issued_object_name_sanitized_witness:
  "get_signed_url example_config example_services example_request =
     (Response (JObject [(''url'', JStr ''https://storage.example/ingest-pipeline/incoming/____etc_passwd''),
                         (''object'', JStr ''incoming/____etc_passwd''),
                         (''expires_at'', JStr ''2026-01-01T00:15:00+00:00'')]) 200,
      [Failed_to_record_upload_request ''firestore unavailable'']) \<and>
   (\<exists>kvs f. body example_request = Some (JObject kvs) \<and>
        dict_get kvs ''filename'' JNull = JStr f \<and>
        map_of [(''url'', JStr ''https://storage.example/ingest-pipeline/incoming/____etc_passwd''),
                (''object'', JStr ''incoming/____etc_passwd''),
                (''expires_at'', JStr ''2026-01-01T00:15:00+00:00'')] ''object'' =
          Some (JStr (upload_prefix example_config @ safe_name f)) \<and>
        CHR ''/'' \<notin> set (safe_name f) \<and>
        (\<nexists>xs ys. safe_name f = xs @ ''..'' @ ys))"
proof -
  have run: "get_signed_url example_config example_services example_request =
     (Response (JObject [(''url'', JStr ''https://storage.example/ingest-pipeline/incoming/____etc_passwd''),
                         (''object'', JStr ''incoming/____etc_passwd''),
                         (''expires_at'', JStr ''2026-01-01T00:15:00+00:00'')]) 200,
      [Failed_to_record_upload_request ''firestore unavailable''])"
    by (simp add: get_signed_url_def verify_id_token_from_header_def is_user_approved_def
        issue_url_def record_upload_request_def object_name_def safe_name_def dict_get_def
        strip_def py_isspace_def example_config_def example_services_def example_request_def
        Let_def)
  from issued_object_name_sanitized[OF run] run show ?thesis by blast
qed

end
